theory Spec2Isabelle
  imports Main "HOL-Library.Word" "HOL-Library.Signed_Division"
begin

unbundle bit_operations_syntax

section \<open>Windows raw input filter of 86Box (qt\_winrawinputfilter.cpp)\<close>

text \<open>
  A shallow embedding of \<^verbatim>\<open>WindowsRawInputFilter::handle_input\<close>,
  \<^verbatim>\<open>keyboard_handle\<close> and \<^verbatim>\<open>mouse_handle\<close>. The raw report structures
  are records with the field names of the Windows structures; \<^verbatim>\<open>USHORT\<close> is a 16-bit
  word, \<^verbatim>\<open>LONG\<close>, \<^verbatim>\<open>DWORD\<close> and \<^verbatim>\<open>int\<close> are 32-bit words. Every call the
  code makes to a function outside the file (the emulated keyboard and mouse, the main
  window, the host cursor) is recorded, in order, in a list of calls carried by the state.
\<close>

subsection \<open>Data\<close>

record RAWKEYBOARD =
  MakeCode :: "16 word"
  Flags :: "16 word"

record RAWMOUSE =
  usFlags :: "16 word"
  usButtonFlags :: "16 word"
  usButtonData :: "16 word"
  lLastX :: "32 word"
  lLastY :: "32 word"

text \<open>
  \<^verbatim>\<open>RAWINPUT\<close>: the header's device type and the data union. The code reads only the
  member that belongs to the device type, so the union is a pair of independent fields.
\<close>

record RAWINPUT =
  header_dwType :: "32 word"
  data_keyboard :: RAWKEYBOARD
  data_mouse :: RAWMOUSE

record RECT =
  rect_left :: "32 word"
  rect_top :: "32 word"
  rect_right :: "32 word"
  rect_bottom :: "32 word"

text \<open>
  The constants of the Windows headers (\<^verbatim>\<open>windows.h\<close>, included at line 40) that the
  code names. They belong to the platform and not to the repository; they have the values
  that the platform SDK gives them, one bit for each flag, as the spec describes the
  button flags (a distinct DOWN and UP bit for each button).
\<close>

definition RIM_TYPEMOUSE :: "32 word" where "RIM_TYPEMOUSE = 0"
definition RIM_TYPEKEYBOARD :: "32 word" where "RIM_TYPEKEYBOARD = 1"
definition RIM_TYPEHID :: "32 word" where "RIM_TYPEHID = 2"

definition RI_KEY_BREAK :: "16 word" where "RI_KEY_BREAK = 1"
definition RI_KEY_E0 :: "16 word" where "RI_KEY_E0 = 2"
definition RI_KEY_E1 :: "16 word" where "RI_KEY_E1 = 4"

definition MOUSE_MOVE_ABSOLUTE :: "16 word" where "MOUSE_MOVE_ABSOLUTE = 1"

definition RI_MOUSE_LEFT_BUTTON_DOWN :: "16 word" where "RI_MOUSE_LEFT_BUTTON_DOWN = 0x0001"
definition RI_MOUSE_LEFT_BUTTON_UP :: "16 word" where "RI_MOUSE_LEFT_BUTTON_UP = 0x0002"
definition RI_MOUSE_RIGHT_BUTTON_DOWN :: "16 word" where "RI_MOUSE_RIGHT_BUTTON_DOWN = 0x0004"
definition RI_MOUSE_RIGHT_BUTTON_UP :: "16 word" where "RI_MOUSE_RIGHT_BUTTON_UP = 0x0008"
definition RI_MOUSE_MIDDLE_BUTTON_DOWN :: "16 word" where "RI_MOUSE_MIDDLE_BUTTON_DOWN = 0x0010"
definition RI_MOUSE_MIDDLE_BUTTON_UP :: "16 word" where "RI_MOUSE_MIDDLE_BUTTON_UP = 0x0020"
definition RI_MOUSE_BUTTON_4_DOWN :: "16 word" where "RI_MOUSE_BUTTON_4_DOWN = 0x0040"
definition RI_MOUSE_BUTTON_4_UP :: "16 word" where "RI_MOUSE_BUTTON_4_UP = 0x0080"
definition RI_MOUSE_BUTTON_5_DOWN :: "16 word" where "RI_MOUSE_BUTTON_5_DOWN = 0x0100"
definition RI_MOUSE_BUTTON_5_UP :: "16 word" where "RI_MOUSE_BUTTON_5_UP = 0x0200"
definition RI_MOUSE_WHEEL :: "16 word" where "RI_MOUSE_WHEEL = 0x0400"

text \<open>
  The calls that leave the file. \<^verbatim>\<open>keyboard_input(int down, uint16_t scancode)\<close>
  receives \<^verbatim>\<open>!(Flags & RI_KEY_BREAK)\<close>, a truth value, as its first argument.
\<close>

datatype call =
    is_keyboard_input: keyboard_input bool "16 word"
  | is_checkFullscreenHotkey: checkFullscreenHotkey
  | is_mouse_set_buttons_ex: mouse_set_buttons_ex "32 word"
  | is_mouse_set_z: mouse_set_z "32 word"
  | is_mouse_scale: mouse_scale "32 word" "32 word"
  | is_SetCursorPos: SetCursorPos "32 word" "32 word"
  | is_win_joystick_handle: win_joystick_handle RAWINPUT

text \<open>
  What the filter reads and does not write: the remap table \<^verbatim>\<open>scancode_map\<close> (an
  array declared in \<^verbatim>\<open>86box/keyboard.h\<close>; its element count, which the code takes
  with \<^verbatim>\<open>sizeof\<close>, is the length of the list), the flags \<^verbatim>\<open>rctrl_is_lalt\<close> and
  \<^verbatim>\<open>mouse_capture\<close> (C integers tested for being nonzero), the helper
  \<^verbatim>\<open>convert_scan_code\<close> (defined outside the file, hence a parameter), and the
  rectangle that \<^verbatim>\<open>GetWindowRect\<close> stores for the main window.
\<close>

record env =
  scancode_map :: "16 word list"
  rctrl_is_lalt :: bool
  mouse_capture :: bool
  convert_scan_code :: "16 word \<Rightarrow> 16 word"
  window_rect :: RECT

text \<open>
  What the filter writes: the six function-local \<^verbatim>\<open>static int\<close> variables of
  \<^verbatim>\<open>mouse_handle\<close> (lines 223 to 225), the button mask of the emulated mouse, and
  the calls made so far.
\<close>

text \<open>
  Modelled from the spec: \<^verbatim>\<open>mouse_get_buttons_ex\<close> and \<^verbatim>\<open>mouse_set_buttons_ex\<close>
  (86box/mouse.h) are not part of the sources; the spec describes them as the device
  backend's current button bitmask, read and written back by the decoder, so the model
  keeps one field \<open>buttons_ex\<close> that the first returns and the second overwrites.
  No property below depends on more than that: each holds for every mask the first call
  may return.
\<close>

record state =
  static_x :: "32 word"
  static_delta_x :: "32 word"
  static_y :: "32 word"
  static_delta_y :: "32 word"
  static_b :: "32 word"
  static_delta_z :: "32 word"
  buttons_ex :: "32 word"
  calls :: "call list"

text \<open>Static storage is zero-initialised; the emulated mouse starts with some mask.\<close>

definition initial_state :: "32 word \<Rightarrow> state" where
  "initial_state b0 =
     \<lparr>static_x = 0, static_delta_x = 0, static_y = 0, static_delta_y = 0,
      static_b = 0, static_delta_z = 0, buttons_ex = b0, calls = []\<rparr>"

definition do_call :: "call \<Rightarrow> state \<Rightarrow> state" where
  "do_call c s = s\<lparr>calls := calls s @ [c]\<rparr>"

text \<open>The calls made on the way from a state to a later one.\<close>

definition new_calls :: "state \<Rightarrow> state \<Rightarrow> call list" where
  "new_calls s s' = drop (length (calls s)) (calls s')"

text \<open>
  Division of two C \<^verbatim>\<open>int\<close>s: the quotient truncated towards zero. Subtraction and
  addition of \<^verbatim>\<open>int\<close>s are the word operations, which wrap around where C leaves the
  result of an overflow undefined.
\<close>

definition c_div :: "32 word \<Rightarrow> 32 word \<Rightarrow> 32 word" where
  "c_div a b = word_of_int (sint a sdiv sint b)"

subsection \<open>keyboard\_handle (lines 166 to 217)\<close>

text \<open>Lines 172 and 187 to 191: the make code, bit 0x100 under E0, then the helper.\<close>

definition kb_prefixed :: "RAWKEYBOARD \<Rightarrow> 16 word" where
  "kb_prefixed rawKB =
     (if Flags rawKB AND RI_KEY_E0 \<noteq> 0 then MakeCode rawKB OR 0x100 else MakeCode rawKB)"

definition kb_canonical :: "env \<Rightarrow> RAWKEYBOARD \<Rightarrow> 16 word" where
  "kb_canonical e rawKB = convert_scan_code e (kb_prefixed rawKB)"

text \<open>Lines 194 to 197: the remap, for a code below the table's element count.\<close>

definition kb_remap :: "env \<Rightarrow> 16 word \<Rightarrow> 16 word" where
  "kb_remap e scancode =
     (if unat scancode < length (scancode_map e) \<and> scancode \<noteq> scancode_map e ! unat scancode
      then scancode_map e ! unat scancode else scancode)"

text \<open>Lines 207 and 208: right Ctrl to left Alt.\<close>

definition kb_rctrl :: "env \<Rightarrow> 16 word \<Rightarrow> 16 word" where
  "kb_rctrl e scancode = (if scancode = 0x11d \<and> rctrl_is_lalt e then 0x038 else scancode)"

text \<open>Lines 184 and 185, and again 212 and 213: the sentinel 0xFFFF is not passed on.\<close>

definition kb_emit :: "RAWKEYBOARD \<Rightarrow> 16 word \<Rightarrow> state \<Rightarrow> state" where
  "kb_emit rawKB scancode s =
     (if scancode \<noteq> 0xFFFF
      then do_call (keyboard_input (Flags rawKB AND RI_KEY_BREAK = 0) scancode) s else s)"

text \<open>
  The E1 branch reads \<^verbatim>\<open>scancode_map[0x100]\<close> with no bounds test. A table of 0x100
  elements or fewer makes that read undefined behaviour, which is the result \<open>None\<close>.
\<close>

definition keyboard_handle :: "env \<Rightarrow> RAWINPUT \<Rightarrow> state \<Rightarrow> state option" where
  "keyboard_handle e raw s =
     (let rawKB = data_keyboard raw in
      if Flags rawKB AND RI_KEY_E1 \<noteq> 0 then
        (if MakeCode rawKB = 0x1D then
           (if 0x100 < length (scancode_map e)
            then Some (kb_emit rawKB (scancode_map e ! 0x100) s) else None)
         else Some (kb_emit rawKB 0xFFFF s))
      else
        Some (do_call checkFullscreenHotkey
               (kb_emit rawKB (kb_rctrl e (kb_remap e (kb_canonical e rawKB))) s)))"

subsection \<open>mouse\_handle (lines 219 to 290)\<close>

text \<open>Lines 230 to 253, in the order of the source: left, middle, right, 4, 5.\<close>

definition mouse_buttons :: "16 word \<Rightarrow> 32 word \<Rightarrow> 32 word" where
  "mouse_buttons f b0 =
     (let b = (if f AND RI_MOUSE_LEFT_BUTTON_DOWN \<noteq> 0 then b0 OR 1
               else if f AND RI_MOUSE_LEFT_BUTTON_UP \<noteq> 0 then b0 AND NOT 1 else b0);
          b = (if f AND RI_MOUSE_MIDDLE_BUTTON_DOWN \<noteq> 0 then b OR 4
               else if f AND RI_MOUSE_MIDDLE_BUTTON_UP \<noteq> 0 then b AND NOT 4 else b);
          b = (if f AND RI_MOUSE_RIGHT_BUTTON_DOWN \<noteq> 0 then b OR 2
               else if f AND RI_MOUSE_RIGHT_BUTTON_UP \<noteq> 0 then b AND NOT 2 else b);
          b = (if f AND RI_MOUSE_BUTTON_4_DOWN \<noteq> 0 then b OR 8
               else if f AND RI_MOUSE_BUTTON_4_UP \<noteq> 0 then b AND NOT 8 else b);
          b = (if f AND RI_MOUSE_BUTTON_5_DOWN \<noteq> 0 then b OR 16
               else if f AND RI_MOUSE_BUTTON_5_UP \<noteq> 0 then b AND NOT 16 else b)
      in b)"

text \<open>Lines 227 and 255: read the mask, update it, write it back.\<close>

definition mouse_step_buttons :: "RAWMOUSE \<Rightarrow> state \<Rightarrow> state" where
  "mouse_step_buttons m s =
     (let b = mouse_buttons (usButtonFlags m) (buttons_ex s)
      in do_call (mouse_set_buttons_ex b) (s\<lparr>static_b := b, buttons_ex := b\<rparr>))"

text \<open>Lines 257 to 261: \<^verbatim>\<open>(SHORT) state.usButtonData / 120\<close> is a division of ints.\<close>

definition mouse_step_wheel :: "RAWMOUSE \<Rightarrow> state \<Rightarrow> state" where
  "mouse_step_wheel m s =
     (if usButtonFlags m AND RI_MOUSE_WHEEL \<noteq> 0 then
        (let dz = c_div (scast (usButtonData m)) 120
         in do_call (mouse_set_z dz) (s\<lparr>static_delta_z := dz\<rparr>))
      else s\<lparr>static_delta_z := 0\<rparr>)"

text \<open>Lines 263 to 276.\<close>

definition mouse_step_motion :: "RAWMOUSE \<Rightarrow> state \<Rightarrow> state" where
  "mouse_step_motion m s =
     (if usFlags m AND MOUSE_MOVE_ABSOLUTE \<noteq> 0 then
        s\<lparr>static_delta_x := c_div (lLastX m - static_x s) 25,
          static_delta_y := c_div (lLastY m - static_y s) 25,
          static_x := lLastX m,
          static_y := lLastY m\<rparr>
      else
        s\<lparr>static_delta_x := lLastX m, static_delta_y := lLastY m\<rparr>)"

text \<open>Lines 278 to 289: scale and forward the motion, then put the host cursor at the
  middle of the window rectangle.\<close>

definition rect_center_x :: "RECT \<Rightarrow> 32 word" where
  "rect_center_x rect = rect_left rect + c_div (rect_right rect - rect_left rect) 2"

definition rect_center_y :: "RECT \<Rightarrow> 32 word" where
  "rect_center_y rect = rect_top rect + c_div (rect_bottom rect - rect_top rect) 2"

definition mouse_step_scale :: "state \<Rightarrow> state" where
  "mouse_step_scale s = do_call (mouse_scale (static_delta_x s) (static_delta_y s)) s"

definition mouse_step_recenter :: "env \<Rightarrow> state \<Rightarrow> state" where
  "mouse_step_recenter e s =
     do_call (SetCursorPos (rect_center_x (window_rect e)) (rect_center_y (window_rect e))) s"

definition mouse_handle :: "env \<Rightarrow> RAWINPUT \<Rightarrow> state \<Rightarrow> state" where
  "mouse_handle e raw s =
     (let m = data_mouse raw in
      mouse_step_recenter e
        (mouse_step_scale (mouse_step_motion m (mouse_step_wheel m (mouse_step_buttons m s)))))"

subsection \<open>handle\_input (lines 135 to 162)\<close>

text \<open>
  The argument is \<open>None\<close> when \<^verbatim>\<open>GetRawInputData\<close> does not deliver the whole
  record (line 144). The \<^verbatim>\<open>switch\<close> has no default case.
\<close>

definition handle_input :: "env \<Rightarrow> RAWINPUT option \<Rightarrow> state \<Rightarrow> state option" where
  "handle_input e input s =
     (case input of
        None \<Rightarrow> Some s
      | Some raw \<Rightarrow>
          if header_dwType raw = RIM_TYPEKEYBOARD then keyboard_handle e raw s
          else if header_dwType raw = RIM_TYPEMOUSE then
            (if mouse_capture e then Some (mouse_handle e raw s) else Some s)
          else if header_dwType raw = RIM_TYPEHID then Some (do_call (win_joystick_handle raw) s)
          else Some s)"

text \<open>A sequence of mouse reports, handled in delivery order.\<close>

fun mouse_run :: "env \<Rightarrow> RAWINPUT list \<Rightarrow> state \<Rightarrow> state" where
  "mouse_run e [] s = s"
| "mouse_run e (raw # raws) s = mouse_run e raws (mouse_handle e raw s)"

subsection \<open>What the specification adds to the code\<close>

text \<open>
  Modelled from the spec: \<^verbatim>\<open>convert_scan_code\<close> (86box/keyboard.h) is called at
  line 191 and defined outside the sources. The spec gives the canonical scan code of a
  report without the E1 flag as the make code with bit 0x100 set under E0, a 9-bit code
  from 0x000 to 0x1FF, and names no further translation between that value and the remap
  lookup; the helper as the spec has it therefore returns a 9-bit code as it is. What it
  returns for a code from 0x200 up (line 190 says that it translates to 9 bits, and not
  how) neither the spec nor the sources settle: that part is the parameter \<open>beyond\<close>.
\<close>

definition convert_scan_code_spec :: "(16 word \<Rightarrow> 16 word) \<Rightarrow> 16 word \<Rightarrow> 16 word" where
  "convert_scan_code_spec beyond scan_code =
     (if scan_code < 0x200 then scan_code else beyond scan_code)"

text \<open>
  The spec's reading of the capture gate, to be compared with \<open>handle_input\<close>: with
  the capture flag false a mouse report is decoded and the resulting event discarded. The
  decoder runs, so its static variables advance; the emulated mouse and the list of calls
  stay as they were.
\<close>

definition spec_mouse_decode_discard :: "env \<Rightarrow> RAWINPUT \<Rightarrow> state \<Rightarrow> state" where
  "spec_mouse_decode_discard e raw s =
     (mouse_handle e raw s)\<lparr>buttons_ex := buttons_ex s, calls := calls s\<rparr>"

text \<open>
  The coordinates of the most recent absolute-mode report of a sequence, or the given pair
  when the sequence has none.
\<close>

definition is_absolute :: "RAWINPUT \<Rightarrow> bool" where
  "is_absolute raw = (usFlags (data_mouse raw) AND MOUSE_MOVE_ABSOLUTE \<noteq> 0)"

definition last_absolute_sample ::
  "RAWINPUT list \<Rightarrow> 32 word \<times> 32 word \<Rightarrow> 32 word \<times> 32 word" where
  "last_absolute_sample raws start =
     (case rev (filter is_absolute raws) of
        [] \<Rightarrow> start
      | raw # _ \<Rightarrow> (lLastX (data_mouse raw), lLastY (data_mouse raw)))"

subsection \<open>The button flags of a report\<close>

text \<open>
  The three things that lines 230 to 253 pair for each button, in the order of the source:
  the DOWN flag, the UP flag, and the position of the button's bit in the mask
  (\<^verbatim>\<open>b |= 1\<close>, \<^verbatim>\<open>4\<close>, \<^verbatim>\<open>2\<close>, \<^verbatim>\<open>8\<close>, \<^verbatim>\<open>16\<close>).
\<close>

definition button_flags :: "(16 word \<times> 16 word \<times> nat) list" where
  "button_flags =
     [(RI_MOUSE_LEFT_BUTTON_DOWN, RI_MOUSE_LEFT_BUTTON_UP, 0),
      (RI_MOUSE_MIDDLE_BUTTON_DOWN, RI_MOUSE_MIDDLE_BUTTON_UP, 2),
      (RI_MOUSE_RIGHT_BUTTON_DOWN, RI_MOUSE_RIGHT_BUTTON_UP, 1),
      (RI_MOUSE_BUTTON_4_DOWN, RI_MOUSE_BUTTON_4_UP, 3),
      (RI_MOUSE_BUTTON_5_DOWN, RI_MOUSE_BUTTON_5_UP, 4)]"

text \<open>The same report with one flag of \<^verbatim>\<open>usButtonFlags\<close> cleared.\<close>

definition clear_button_flag :: "16 word \<Rightarrow> RAWINPUT \<Rightarrow> RAWINPUT" where
  "clear_button_flag u raw =
     raw\<lparr>data_mouse := (data_mouse raw)\<lparr>usButtonFlags := usButtonFlags (data_mouse raw) AND NOT u\<rparr>\<rparr>"

subsection \<open>Concrete reports and settings\<close>

definition identity_map :: "nat \<Rightarrow> 16 word list" where
  "identity_map n = map of_nat [0..<n]"

text \<open>
  A table of 0x200 entries, the identity but for two: 0x01D is remapped to 0x11D, and
  0x11D itself to 0x005. The helper leaves a 9-bit code as it is and, in this example,
  gives the invalid code 0xFFFF of lines 199 to 203 for every other one. The window
  rectangle is 800 by 600 at (100, 50).
\<close>

definition example_env :: env where
  "example_env =
     \<lparr>scancode_map = (identity_map 0x200)[0x1D := 0x11D, 0x11D := 0x005],
      rctrl_is_lalt = True,
      mouse_capture = True,
      convert_scan_code = convert_scan_code_spec (\<lambda>scan_code. 0xFFFF),
      window_rect = \<lparr>rect_left = 100, rect_top = 50, rect_right = 900, rect_bottom = 650\<rparr>\<rparr>"

text \<open>
  The same settings with a table that marks two codes as invalid: 0x03A, and the slot
  0x100 that the E1 1D sequence is looked up in.
\<close>

definition sentinel_env :: env where
  "sentinel_env =
     example_env\<lparr>scancode_map := (identity_map 0x200)[0x3A := 0xFFFF, 0x100 := 0xFFFF]\<rparr>"

definition key_report :: "16 word \<Rightarrow> 16 word \<Rightarrow> RAWINPUT" where
  "key_report code flags =
     \<lparr>header_dwType = RIM_TYPEKEYBOARD,
      data_keyboard = \<lparr>MakeCode = code, Flags = flags\<rparr>,
      data_mouse = \<lparr>usFlags = 0, usButtonFlags = 0, usButtonData = 0, lLastX = 0, lLastY = 0\<rparr>\<rparr>"

definition mouse_report ::
  "16 word \<Rightarrow> 16 word \<Rightarrow> 16 word \<Rightarrow> 32 word \<Rightarrow> 32 word \<Rightarrow> RAWINPUT" where
  "mouse_report flags buttons data x y =
     \<lparr>header_dwType = RIM_TYPEMOUSE,
      data_keyboard = \<lparr>MakeCode = 0, Flags = 0\<rparr>,
      data_mouse = \<lparr>usFlags = flags, usButtonFlags = buttons, usButtonData = data,
                    lLastX = x, lLastY = y\<rparr>\<rparr>"

section \<open>Properties\<close>

lemmas winuser_defs =
  RIM_TYPEMOUSE_def RIM_TYPEKEYBOARD_def RIM_TYPEHID_def
  RI_KEY_BREAK_def RI_KEY_E0_def RI_KEY_E1_def MOUSE_MOVE_ABSOLUTE_def
  RI_MOUSE_LEFT_BUTTON_DOWN_def RI_MOUSE_LEFT_BUTTON_UP_def
  RI_MOUSE_RIGHT_BUTTON_DOWN_def RI_MOUSE_RIGHT_BUTTON_UP_def
  RI_MOUSE_MIDDLE_BUTTON_DOWN_def RI_MOUSE_MIDDLE_BUTTON_UP_def
  RI_MOUSE_BUTTON_4_DOWN_def RI_MOUSE_BUTTON_4_UP_def
  RI_MOUSE_BUTTON_5_DOWN_def RI_MOUSE_BUTTON_5_UP_def RI_MOUSE_WHEEL_def

subsection \<open>The calls of a state\<close>

lemma calls_do_call: "calls (do_call c s) = calls s @ [c]"
  by (simp add: do_call_def)

lemma new_calls_append: "calls s' = calls s @ cs \<Longrightarrow> new_calls s s' = cs"
  by (simp add: new_calls_def)

subsection \<open>The button mask\<close>

lemma button_flags_cases:
  assumes "(d, u, n) \<in> set button_flags"
  obtains "d = RI_MOUSE_LEFT_BUTTON_DOWN" "u = RI_MOUSE_LEFT_BUTTON_UP" "n = 0"
  | "d = RI_MOUSE_MIDDLE_BUTTON_DOWN" "u = RI_MOUSE_MIDDLE_BUTTON_UP" "n = 2"
  | "d = RI_MOUSE_RIGHT_BUTTON_DOWN" "u = RI_MOUSE_RIGHT_BUTTON_UP" "n = 1"
  | "d = RI_MOUSE_BUTTON_4_DOWN" "u = RI_MOUSE_BUTTON_4_UP" "n = 3"
  | "d = RI_MOUSE_BUTTON_5_DOWN" "u = RI_MOUSE_BUTTON_5_UP" "n = 4"
  using assms unfolding button_flags_def by auto

lemma down_sets_bit:
  assumes "(d, u, n) \<in> set button_flags" and "f AND d \<noteq> 0"
  shows "bit (mouse_buttons f b0) n"
  using assms(1)
proof (cases rule: button_flags_cases)
  case 1 then show ?thesis using assms(2) by (simp add: mouse_buttons_def Let_def bit_simps)
next
  case 2 then show ?thesis using assms(2) by (simp add: mouse_buttons_def Let_def bit_simps)
next
  case 3 then show ?thesis using assms(2) by (simp add: mouse_buttons_def Let_def bit_simps)
next
  case 4 then show ?thesis using assms(2) by (simp add: mouse_buttons_def Let_def bit_simps)
next
  case 5 then show ?thesis using assms(2) by (simp add: mouse_buttons_def Let_def bit_simps)
qed

lemma up_ignored_after_down:
  assumes "(d, u, n) \<in> set button_flags" and "f AND d \<noteq> 0"
  shows "mouse_buttons (f AND NOT u) b0 = mouse_buttons f b0"
  using assms(1)
proof (cases rule: button_flags_cases)
  case 1 then show ?thesis using assms(2)
    by (simp add: mouse_buttons_def winuser_defs and.assoc Let_def cong: if_cong)
next
  case 2 then show ?thesis using assms(2)
    by (simp add: mouse_buttons_def winuser_defs and.assoc Let_def cong: if_cong)
next
  case 3 then show ?thesis using assms(2)
    by (simp add: mouse_buttons_def winuser_defs and.assoc Let_def cong: if_cong)
next
  case 4 then show ?thesis using assms(2)
    by (simp add: mouse_buttons_def winuser_defs and.assoc Let_def cong: if_cong)
next
  case 5 then show ?thesis using assms(2)
    by (simp add: mouse_buttons_def winuser_defs and.assoc Let_def cong: if_cong)
qed

lemma up_keeps_wheel_flag:
  assumes "(d, u, n) \<in> set button_flags"
  shows "(f AND NOT u) AND RI_MOUSE_WHEEL = f AND RI_MOUSE_WHEEL"
  using assms by (cases rule: button_flags_cases) (simp_all add: winuser_defs and.assoc)

lemma buttons_ex_mouse_handle:
  "buttons_ex (mouse_handle e raw s) = mouse_buttons (usButtonFlags (data_mouse raw)) (buttons_ex s)"
  by (simp add: mouse_handle_def mouse_step_recenter_def mouse_step_scale_def
      mouse_step_motion_def mouse_step_wheel_def mouse_step_buttons_def do_call_def Let_def)

lemma hd_new_calls_mouse_handle:
  "hd (new_calls s (mouse_handle e raw s)) =
     mouse_set_buttons_ex (mouse_buttons (usButtonFlags (data_mouse raw)) (buttons_ex s))"
  by (simp add: new_calls_def mouse_handle_def mouse_step_recenter_def mouse_step_scale_def
      mouse_step_motion_def mouse_step_wheel_def mouse_step_buttons_def do_call_def Let_def)

lemma mouse_handle_clear_up:
  assumes "(d, u, n) \<in> set button_flags" and "usButtonFlags (data_mouse raw) AND d \<noteq> 0"
  shows "mouse_handle e (clear_button_flag u raw) s = mouse_handle e raw s"
proof -
  let ?f = "usButtonFlags (data_mouse raw)"
  have b: "mouse_buttons (?f AND NOT u) (buttons_ex s) = mouse_buttons ?f (buttons_ex s)"
    using assms by (rule up_ignored_after_down)
  have w: "(?f AND NOT u) AND RI_MOUSE_WHEEL = ?f AND RI_MOUSE_WHEEL"
    using assms(1) by (rule up_keeps_wheel_flag)
  show ?thesis
    by (simp add: mouse_handle_def clear_button_flag_def mouse_step_buttons_def
        mouse_step_wheel_def mouse_step_motion_def b w Let_def)
qed

text \<open>
  C10. When a report carries both the DOWN and the UP flag of one button, DOWN wins: the
  button's bit is set in the mask that the decoder writes to the emulated mouse (its first
  call of the report), and the report is handled exactly as the same report without the UP
  flag. This holds for each of the five buttons.
\<close>

theorem down_flag_has_priority:
  assumes "(d, u, n) \<in> set button_flags"
    and "usButtonFlags (data_mouse raw) AND d \<noteq> 0"
    and "usButtonFlags (data_mouse raw) AND u \<noteq> 0"
  shows "bit (buttons_ex (mouse_handle e raw s)) n \<and>
         hd (new_calls s (mouse_handle e raw s)) =
           mouse_set_buttons_ex (buttons_ex (mouse_handle e raw s)) \<and>
         mouse_handle e (clear_button_flag u raw) s = mouse_handle e raw s"
  using assms(1,2)
  by (simp add: buttons_ex_mouse_handle hd_new_calls_mouse_handle down_sets_bit
      mouse_handle_clear_up)

theorem down_flag_has_priority_witness:
  "(RI_MOUSE_RIGHT_BUTTON_DOWN, RI_MOUSE_RIGHT_BUTTON_UP, 1) \<in> set button_flags \<and>
   usButtonFlags (data_mouse (mouse_report 0 0x000C 0 0 0)) AND RI_MOUSE_RIGHT_BUTTON_DOWN \<noteq> 0 \<and>
   usButtonFlags (data_mouse (mouse_report 0 0x000C 0 0 0)) AND RI_MOUSE_RIGHT_BUTTON_UP \<noteq> 0 \<and>
   bit (buttons_ex (mouse_handle example_env (mouse_report 0 0x000C 0 0 0) (initial_state 0))) 1 \<and>
   buttons_ex (mouse_handle example_env (mouse_report 0 0x000C 0 0 0) (initial_state 0)) = 2 \<and>
   mouse_handle example_env (clear_button_flag RI_MOUSE_RIGHT_BUTTON_UP (mouse_report 0 0x000C 0 0 0))
     (initial_state 0) =
   mouse_handle example_env (mouse_report 0 0x000C 0 0 0) (initial_state 0)"
proof -
  have h1: "(RI_MOUSE_RIGHT_BUTTON_DOWN, RI_MOUSE_RIGHT_BUTTON_UP, 1) \<in> set button_flags"
    by (simp add: button_flags_def)
  have h2: "usButtonFlags (data_mouse (mouse_report 0 0x000C 0 0 0)) AND RI_MOUSE_RIGHT_BUTTON_DOWN \<noteq> 0"
    by (simp add: mouse_report_def winuser_defs)
  have h3: "usButtonFlags (data_mouse (mouse_report 0 0x000C 0 0 0)) AND RI_MOUSE_RIGHT_BUTTON_UP \<noteq> 0"
    by (simp add: mouse_report_def winuser_defs)
  have v: "buttons_ex (mouse_handle example_env (mouse_report 0 0x000C 0 0 0) (initial_state 0)) = 2"
    by (simp add: buttons_ex_mouse_handle mouse_report_def mouse_buttons_def winuser_defs
        initial_state_def)
  show ?thesis
    using h1 h2 h3 v
      down_flag_has_priority [OF h1 h2 h3, of example_env "initial_state 0"]
    by simp
qed

subsection \<open>Division of C ints\<close>

lemma sdiv_pos_range:
  fixes k l :: int
  assumes "0 < l" and "- (2 ^ 31) \<le> k" and "k < 2 ^ 31"
  shows "- (2 ^ 31) \<le> k sdiv l \<and> k sdiv l < 2 ^ 31"
proof (cases "0 \<le> k")
  case True
  then have "k sdiv l = k div l"
    using assms(1) by (simp add: signed_divide_int_def sgn_if)
  moreover have "0 \<le> k div l"
    using True assms(1) by (simp add: pos_imp_zdiv_nonneg_iff)
  moreover have "k div l \<le> k"
    using zdiv_mono2 [of k 1 l] True assms(1) by simp
  ultimately show ?thesis
    using assms by linarith
next
  case False
  then have eq: "k sdiv l = - ((- k) div l)"
    using assms(1) by (simp add: signed_divide_int_def sgn_if)
  have "0 \<le> (- k) div l"
    using False assms(1) by (simp add: pos_imp_zdiv_nonneg_iff)
  moreover have "(- k) div l \<le> - k"
    using zdiv_mono2 [of "- k" 1 l] False assms(1) by simp
  ultimately show ?thesis
    using assms eq by linarith
qed

lemma sint_c_div:
  assumes "0 < sint b"
  shows "sint (c_div a b) = sint a sdiv sint b"
proof -
  have "- (2 ^ 31) \<le> sint a" and "sint a < 2 ^ 31"
    using sint_ge [of a] sint_lt [of a] by simp_all
  then have "- (2 ^ 31) \<le> sint a sdiv sint b \<and> sint a sdiv sint b < 2 ^ 31"
    using assms by (intro sdiv_pos_range) simp_all
  then show ?thesis
    by (simp add: c_div_def sint_sbintrunc' signed_take_bit_int_eq_self)
qed

lemma sint_c_div_25: "sint (c_div a 25) = sint a sdiv 25"
  using sint_c_div [of 25 a] by simp

lemma sint_c_div_120: "sint (c_div a 120) = sint a sdiv 120"
  using sint_c_div [of 120 a] by simp

lemma sint_c_div_2: "sint (c_div a 2) = sint a sdiv 2"
  using sint_c_div [of 2 a] by simp

lemma sint_diff_no_overflow:
  fixes a b :: "32 word"
  assumes "- (2 ^ 31) \<le> sint a - sint b" and "sint a - sint b < 2 ^ 31"
  shows "sint (a - b) = sint a - sint b"
  using assms by (simp add: sint_word_diff signed_take_bit_int_eq_self)

lemma sint_scast_short: "sint (scast (w :: 16 word) :: 32 word) = sint w"
  by (simp add: sint_up_scast is_up)

subsection \<open>What one call of mouse\_handle leaves behind\<close>

lemmas mouse_handle_defs =
  mouse_handle_def mouse_step_recenter_def mouse_step_scale_def mouse_step_motion_def
  mouse_step_wheel_def mouse_step_buttons_def do_call_def Let_def

lemma static_x_mouse_handle:
  "static_x (mouse_handle e raw s) =
     (if usFlags (data_mouse raw) AND MOUSE_MOVE_ABSOLUTE \<noteq> 0 then lLastX (data_mouse raw)
      else static_x s)"
  by (simp add: mouse_handle_defs)

lemma static_y_mouse_handle:
  "static_y (mouse_handle e raw s) =
     (if usFlags (data_mouse raw) AND MOUSE_MOVE_ABSOLUTE \<noteq> 0 then lLastY (data_mouse raw)
      else static_y s)"
  by (simp add: mouse_handle_defs)

lemma static_delta_x_mouse_handle:
  "static_delta_x (mouse_handle e raw s) =
     (if usFlags (data_mouse raw) AND MOUSE_MOVE_ABSOLUTE \<noteq> 0
      then c_div (lLastX (data_mouse raw) - static_x s) 25 else lLastX (data_mouse raw))"
  by (simp add: mouse_handle_defs)

lemma static_delta_y_mouse_handle:
  "static_delta_y (mouse_handle e raw s) =
     (if usFlags (data_mouse raw) AND MOUSE_MOVE_ABSOLUTE \<noteq> 0
      then c_div (lLastY (data_mouse raw) - static_y s) 25 else lLastY (data_mouse raw))"
  by (simp add: mouse_handle_defs)

lemma static_delta_z_mouse_handle:
  "static_delta_z (mouse_handle e raw s) =
     (if usButtonFlags (data_mouse raw) AND RI_MOUSE_WHEEL \<noteq> 0
      then c_div (scast (usButtonData (data_mouse raw))) 120 else 0)"
  by (simp add: mouse_handle_defs)

lemma calls_mouse_handle:
  "calls (mouse_handle e raw s) =
     calls s @
     mouse_set_buttons_ex (buttons_ex (mouse_handle e raw s)) #
     (if usButtonFlags (data_mouse raw) AND RI_MOUSE_WHEEL \<noteq> 0
      then [mouse_set_z (static_delta_z (mouse_handle e raw s))] else []) @
     [mouse_scale (static_delta_x (mouse_handle e raw s)) (static_delta_y (mouse_handle e raw s)),
      SetCursorPos (rect_center_x (window_rect e)) (rect_center_y (window_rect e))]"
  by (simp add: mouse_handle_defs)

lemma new_calls_mouse_handle:
  "new_calls s (mouse_handle e raw s) =
     mouse_set_buttons_ex (buttons_ex (mouse_handle e raw s)) #
     (if usButtonFlags (data_mouse raw) AND RI_MOUSE_WHEEL \<noteq> 0
      then [mouse_set_z (static_delta_z (mouse_handle e raw s))] else []) @
     [mouse_scale (static_delta_x (mouse_handle e raw s)) (static_delta_y (mouse_handle e raw s)),
      SetCursorPos (rect_center_x (window_rect e)) (rect_center_y (window_rect e))]"
  by (rule new_calls_append) (rule calls_mouse_handle)

text \<open>
  C7. With the wheel flag set, the wheel delta is the notch value, read as a signed 16-bit
  number, divided by 120 with the quotient truncated towards zero, and
  \<^verbatim>\<open>mouse_set_z\<close> receives it within the same report, between the button mask and
  the motion. With the flag unset the wheel delta of the report is 0 whatever the payload,
  and \<^verbatim>\<open>mouse_set_z\<close> is not called.
\<close>

theorem wheel_delta:
  "let m = data_mouse raw; s' = mouse_handle e raw s in
     (usButtonFlags m AND RI_MOUSE_WHEEL \<noteq> 0 \<longrightarrow>
        sint (static_delta_z s') = sint (usButtonData m) sdiv 120 \<and>
        new_calls s s' =
          [mouse_set_buttons_ex (buttons_ex s'), mouse_set_z (static_delta_z s'),
           mouse_scale (static_delta_x s') (static_delta_y s'),
           SetCursorPos (rect_center_x (window_rect e)) (rect_center_y (window_rect e))]) \<and>
     (usButtonFlags m AND RI_MOUSE_WHEEL = 0 \<longrightarrow>
        static_delta_z s' = 0 \<and>
        new_calls s s' =
          [mouse_set_buttons_ex (buttons_ex s'),
           mouse_scale (static_delta_x s') (static_delta_y s'),
           SetCursorPos (rect_center_x (window_rect e)) (rect_center_y (window_rect e))])"
  by (simp add: Let_def new_calls_mouse_handle)
     (simp add: static_delta_z_mouse_handle sint_c_div_120 sint_scast_short)

theorem wheel_delta_witness:
  "usButtonFlags (data_mouse (mouse_report 0 0x0400 240 0 0)) AND RI_MOUSE_WHEEL \<noteq> 0 \<and>
   static_delta_z (mouse_handle example_env (mouse_report 0 0x0400 240 0 0) (initial_state 0)) = 2 \<and>
   sint (static_delta_z (mouse_handle example_env (mouse_report 0 0x0400 240 0 0) (initial_state 0))) = 2 \<and>
   usButtonFlags (data_mouse (mouse_report 0 0x0400 0xFF88 0 0)) AND RI_MOUSE_WHEEL \<noteq> 0 \<and>
   sint (usButtonData (data_mouse (mouse_report 0 0x0400 0xFF88 0 0))) = - 120 \<and>
   sint (static_delta_z (mouse_handle example_env (mouse_report 0 0x0400 0xFF88 0 0) (initial_state 0))) = - 1 \<and>
   usButtonFlags (data_mouse (mouse_report 0 0 240 0 0)) AND RI_MOUSE_WHEEL = 0 \<and>
   static_delta_z (mouse_handle example_env (mouse_report 0 0 240 0 0) (initial_state 0)) = 0 \<and>
   new_calls (initial_state 0) (mouse_handle example_env (mouse_report 0 0 240 0 0) (initial_state 0)) =
     [mouse_set_buttons_ex 0, mouse_scale 0 0, SetCursorPos 500 350]"
proof -
  have a: "static_delta_z (mouse_handle example_env (mouse_report 0 0x0400 240 0 0) (initial_state 0)) = 2"
    by (simp add: static_delta_z_mouse_handle mouse_report_def winuser_defs c_div_def)
  have b: "sint (usButtonData (data_mouse (mouse_report 0 0x0400 0xFF88 0 0))) = - 120"
    by (simp add: mouse_report_def)
  have c: "new_calls (initial_state 0) (mouse_handle example_env (mouse_report 0 0 240 0 0) (initial_state 0)) =
     [mouse_set_buttons_ex 0, mouse_scale 0 0, SetCursorPos 500 350]"
    by (simp add: new_calls_def mouse_handle_defs mouse_buttons_def mouse_report_def winuser_defs
        initial_state_def example_env_def rect_center_x_def rect_center_y_def c_div_def)
  have f: "usButtonFlags (data_mouse (mouse_report 0 0x0400 v 0 0)) AND RI_MOUSE_WHEEL \<noteq> 0" for v
    by (simp add: mouse_report_def winuser_defs)
  have g: "usButtonFlags (data_mouse (mouse_report 0 0 240 0 0)) AND RI_MOUSE_WHEEL = 0"
    by (simp add: mouse_report_def winuser_defs)
  show ?thesis
    using a b c f g
      wheel_delta [of "mouse_report 0 0x0400 240 0 0" example_env "initial_state 0"]
      wheel_delta [of "mouse_report 0 0x0400 0xFF88 0 0" example_env "initial_state 0"]
      wheel_delta [of "mouse_report 0 0 240 0 0" example_env "initial_state 0"]
    by (simp add: Let_def)
qed

text \<open>
  C8. In absolute mode the motion passed on is the difference between the report's
  coordinates and the previous sample, divided by 25 with the quotient truncated towards
  zero (read as integers whenever the difference fits an \<^verbatim>\<open>int\<close>), and the
  previous sample becomes the report's coordinates. In relative mode the motion is the
  report's coordinates unchanged and the previous sample stays. Either way that motion is
  the argument of the report's one call of \<^verbatim>\<open>mouse_scale\<close>.
\<close>

theorem motion_delta:
  "let m = data_mouse raw; s' = mouse_handle e raw s in
     (usFlags m AND MOUSE_MOVE_ABSOLUTE \<noteq> 0 \<longrightarrow>
        static_delta_x s' = c_div (lLastX m - static_x s) 25 \<and>
        static_delta_y s' = c_div (lLastY m - static_y s) 25 \<and>
        (- (2 ^ 31) \<le> sint (lLastX m) - sint (static_x s) \<and>
         sint (lLastX m) - sint (static_x s) < 2 ^ 31 \<longrightarrow>
           sint (static_delta_x s') = (sint (lLastX m) - sint (static_x s)) sdiv 25) \<and>
        (- (2 ^ 31) \<le> sint (lLastY m) - sint (static_y s) \<and>
         sint (lLastY m) - sint (static_y s) < 2 ^ 31 \<longrightarrow>
           sint (static_delta_y s') = (sint (lLastY m) - sint (static_y s)) sdiv 25) \<and>
        static_x s' = lLastX m \<and> static_y s' = lLastY m) \<and>
     (usFlags m AND MOUSE_MOVE_ABSOLUTE = 0 \<longrightarrow>
        static_delta_x s' = lLastX m \<and> static_delta_y s' = lLastY m \<and>
        static_x s' = static_x s \<and> static_y s' = static_y s) \<and>
     filter is_mouse_scale (new_calls s s') =
       [mouse_scale (static_delta_x s') (static_delta_y s')]"
  by (simp add: Let_def new_calls_mouse_handle)
     (simp add: static_x_mouse_handle static_y_mouse_handle static_delta_x_mouse_handle
        static_delta_y_mouse_handle sint_c_div_25 sint_diff_no_overflow)

theorem motion_delta_witness:
  "usFlags (data_mouse (mouse_report 1 0 0 1050 975)) AND MOUSE_MOVE_ABSOLUTE \<noteq> 0 \<and>
   static_x (mouse_handle example_env (mouse_report 1 0 0 1000 1000) (initial_state 0)) = 1000 \<and>
   static_y (mouse_handle example_env (mouse_report 1 0 0 1000 1000) (initial_state 0)) = 1000 \<and>
   sint (static_delta_x (mouse_handle example_env (mouse_report 1 0 0 1050 975)
     (mouse_handle example_env (mouse_report 1 0 0 1000 1000) (initial_state 0)))) = 2 \<and>
   sint (static_delta_y (mouse_handle example_env (mouse_report 1 0 0 1050 975)
     (mouse_handle example_env (mouse_report 1 0 0 1000 1000) (initial_state 0)))) = - 1 \<and>
   static_x (mouse_handle example_env (mouse_report 1 0 0 1050 975)
     (mouse_handle example_env (mouse_report 1 0 0 1000 1000) (initial_state 0))) = 1050 \<and>
   static_y (mouse_handle example_env (mouse_report 1 0 0 1050 975)
     (mouse_handle example_env (mouse_report 1 0 0 1000 1000) (initial_state 0))) = 975 \<and>
   usFlags (data_mouse (mouse_report 1 0 0 1049 976)) AND MOUSE_MOVE_ABSOLUTE \<noteq> 0 \<and>
   sint (static_delta_x (mouse_handle example_env (mouse_report 1 0 0 1049 976)
     (mouse_handle example_env (mouse_report 1 0 0 1000 1000) (initial_state 0)))) = 1 \<and>
   sint (static_delta_y (mouse_handle example_env (mouse_report 1 0 0 1049 976)
     (mouse_handle example_env (mouse_report 1 0 0 1000 1000) (initial_state 0)))) = 0 \<and>
   usFlags (data_mouse (mouse_report 0 0 0 3 (- 4))) AND MOUSE_MOVE_ABSOLUTE = 0 \<and>
   filter is_mouse_scale (new_calls (initial_state 0)
     (mouse_handle example_env (mouse_report 0 0 0 3 (- 4)) (initial_state 0))) =
     [mouse_scale 3 (- 4)]"
proof -
  let ?s1 = "mouse_handle example_env (mouse_report 1 0 0 1000 1000) (initial_state 0)"
  have p: "static_x ?s1 = 1000" "static_y ?s1 = 1000"
    by (simp_all add: static_x_mouse_handle static_y_mouse_handle mouse_report_def winuser_defs)
  have a: "usFlags (data_mouse (mouse_report 1 0 0 x y)) AND MOUSE_MOVE_ABSOLUTE \<noteq> 0" for x y
    by (simp add: mouse_report_def winuser_defs)
  have r: "usFlags (data_mouse (mouse_report 0 0 0 3 (- 4))) AND MOUSE_MOVE_ABSOLUTE = 0"
    by (simp add: mouse_report_def winuser_defs)
  have c: "lLastX (data_mouse (mouse_report f b d x y)) = x"
    "lLastY (data_mouse (mouse_report f b d x y)) = y" for f b d x y
    by (simp_all add: mouse_report_def)
  show ?thesis
    using p a r
      motion_delta [of "mouse_report 1 0 0 1050 975" example_env ?s1]
      motion_delta [of "mouse_report 1 0 0 1049 976" example_env ?s1]
      motion_delta [of "mouse_report 0 0 0 3 (- 4)" example_env "initial_state 0"]
    by (simp add: Let_def c_div_def c)
qed

subsection \<open>The middle of the window rectangle\<close>

lemma sint_add_no_overflow:
  fixes a b :: "32 word"
  assumes "- (2 ^ 31) \<le> sint a + sint b" and "sint a + sint b < 2 ^ 31"
  shows "sint (a + b) = sint a + sint b"
  using assms by (simp add: sint_word_add signed_take_bit_int_eq_self)

lemma sdiv_2_bounds:
  fixes k :: int
  assumes "0 \<le> k"
  shows "0 \<le> k sdiv 2 \<and> k sdiv 2 \<le> k"
proof -
  have "k sdiv 2 = k div 2"
    using assms by (simp add: signed_divide_int_def sgn_if)
  then show ?thesis
    using assms by simp
qed

text \<open>
  Read as integers, the point the cursor is put at is the middle of the rectangle, for a
  rectangle whose right edge is not left of its left edge and whose width fits an
  \<^verbatim>\<open>int\<close>; likewise for the height.
\<close>

lemma sint_halfway:
  fixes lo hi :: "32 word"
  assumes "sint lo \<le> sint hi" and "sint hi - sint lo < 2 ^ 31"
  shows "sint (lo + c_div (hi - lo) 2) = sint lo + (sint hi - sint lo) sdiv 2"
proof -
  have d: "sint (hi - lo) = sint hi - sint lo"
    using assms sint_ge [of hi] sint_lt [of lo] by (intro sint_diff_no_overflow) simp_all
  have h: "sint (c_div (hi - lo) 2) = (sint hi - sint lo) sdiv 2"
    by (simp add: sint_c_div_2 d)
  have b: "0 \<le> (sint hi - sint lo) sdiv 2 \<and> (sint hi - sint lo) sdiv 2 \<le> sint hi - sint lo"
    using assms(1) by (intro sdiv_2_bounds) simp
  have "sint (lo + c_div (hi - lo) 2) = sint lo + sint (c_div (hi - lo) 2)"
    using b h sint_ge [of lo] sint_lt [of hi] by (intro sint_add_no_overflow) simp_all
  then show ?thesis
    by (simp add: h)
qed

lemma rect_center_int:
  assumes "sint (rect_left r) \<le> sint (rect_right r)"
    and "sint (rect_right r) - sint (rect_left r) < 2 ^ 31"
    and "sint (rect_top r) \<le> sint (rect_bottom r)"
    and "sint (rect_bottom r) - sint (rect_top r) < 2 ^ 31"
  shows "sint (rect_center_x r) =
           sint (rect_left r) + (sint (rect_right r) - sint (rect_left r)) sdiv 2"
    and "sint (rect_center_y r) =
           sint (rect_top r) + (sint (rect_bottom r) - sint (rect_top r)) sdiv 2"
  using assms by (simp_all add: rect_center_x_def rect_center_y_def sint_halfway)

subsection \<open>Sequences of mouse reports\<close>

lemma mouse_run_append:
  "mouse_run e (raws @ [raw]) s = mouse_handle e raw (mouse_run e raws s)"
  by (induction raws arbitrary: s) simp_all

lemma filter_SetCursorPos_mouse_handle:
  "filter is_SetCursorPos (calls (mouse_handle e raw s)) =
     filter is_SetCursorPos (calls s) @
     [SetCursorPos (rect_center_x (window_rect e)) (rect_center_y (window_rect e))]"
  by (subst calls_mouse_handle) simp

lemma filter_SetCursorPos_mouse_run:
  "filter is_SetCursorPos (calls (mouse_run e raws s)) =
     filter is_SetCursorPos (calls s) @
     replicate (length raws)
       (SetCursorPos (rect_center_x (window_rect e)) (rect_center_y (window_rect e)))"
proof (induction raws arbitrary: s)
  case Nil
  show ?case by simp
next
  case (Cons raw raws)
  show ?case
    by (simp add: Cons.IH filter_SetCursorPos_mouse_handle replicate_append_same)
qed

lemma last_absolute_sample_snoc:
  "last_absolute_sample (raws @ [raw]) start =
     (if is_absolute raw then (lLastX (data_mouse raw), lLastY (data_mouse raw))
      else last_absolute_sample raws start)"
  by (simp add: last_absolute_sample_def)

lemma sample_after_mouse_run:
  "(static_x (mouse_run e raws s), static_y (mouse_run e raws s)) =
     last_absolute_sample raws (static_x s, static_y s)"
proof (induction raws rule: rev_induct)
  case Nil
  show ?case by (simp add: last_absolute_sample_def)
next
  case (snoc raw raws)
  then show ?case
    by (simp add: mouse_run_append last_absolute_sample_snoc static_x_mouse_handle
        static_y_mouse_handle is_absolute_def)
qed

text \<open>
  C2, as the code has it. Every report that the mouse decoder handles, absolute or
  relative, ends with one call that puts the host cursor at the middle of the window
  rectangle, directly after the call of \<^verbatim>\<open>mouse_scale\<close>; a sequence of reports
  makes as many such calls as it has reports.
\<close>

theorem recenter_every_report:
  "new_calls s (mouse_handle e raw s) =
     mouse_set_buttons_ex (buttons_ex (mouse_handle e raw s)) #
     (if usButtonFlags (data_mouse raw) AND RI_MOUSE_WHEEL \<noteq> 0
      then [mouse_set_z (static_delta_z (mouse_handle e raw s))] else []) @
     [mouse_scale (static_delta_x (mouse_handle e raw s)) (static_delta_y (mouse_handle e raw s)),
      SetCursorPos
        (rect_left (window_rect e) + c_div (rect_right (window_rect e) - rect_left (window_rect e)) 2)
        (rect_top (window_rect e) + c_div (rect_bottom (window_rect e) - rect_top (window_rect e)) 2)] \<and>
   length (filter is_SetCursorPos (new_calls s (mouse_handle e raw s))) = 1 \<and>
   length (filter is_SetCursorPos (calls (mouse_run e raws s))) =
     length (filter is_SetCursorPos (calls s)) + length raws"
  by (simp add: new_calls_mouse_handle filter_SetCursorPos_mouse_run rect_center_x_def
      rect_center_y_def)

theorem recenter_every_report_witness:
  "new_calls (initial_state 0)
     (mouse_handle example_env (mouse_report 1 0 0 1000 500) (initial_state 0)) =
     [mouse_set_buttons_ex 0, mouse_scale 40 20, SetCursorPos 500 350] \<and>
   new_calls (initial_state 0)
     (mouse_handle example_env (mouse_report 0 0 0 3 4) (initial_state 0)) =
     [mouse_set_buttons_ex 0, mouse_scale 3 4, SetCursorPos 500 350] \<and>
   length (filter is_SetCursorPos (calls (mouse_run example_env
     [mouse_report 1 0 0 1000 500, mouse_report 0 0 0 3 4] (initial_state 0)))) = 2"
  using
    recenter_every_report [of "initial_state 0" example_env "mouse_report 1 0 0 1000 500"
      "[mouse_report 1 0 0 1000 500, mouse_report 0 0 0 3 4]"]
    recenter_every_report [of "initial_state 0" example_env "mouse_report 0 0 0 3 4" "[]"]
  by (simp add: buttons_ex_mouse_handle static_delta_x_mouse_handle static_delta_y_mouse_handle
      mouse_report_def mouse_buttons_def winuser_defs initial_state_def example_env_def c_div_def)

text \<open>
  The claim C2 as stated fails: a relative-mode report recenters the host cursor too.
\<close>

theorem recenter_relative_counterexample:
  "usFlags (data_mouse (mouse_report 0 0 0 3 4)) AND MOUSE_MOVE_ABSOLUTE = 0 \<and>
   filter is_SetCursorPos (new_calls (initial_state 0)
     (mouse_handle example_env (mouse_report 0 0 0 3 4) (initial_state 0))) =
     [SetCursorPos 500 350]"
  by (simp add: new_calls_mouse_handle mouse_report_def winuser_defs example_env_def
      rect_center_x_def rect_center_y_def c_div_def)

text \<open>
  C3, as the code has it. The previous-sample variables are static and start at (0, 0),
  not at the first sample seen: the first absolute report handled gets the motion
  (x / 25, y / 25). After any sequence of reports the previous sample is the pair of
  coordinates of the last absolute report of the sequence, so the motion of an absolute
  report that follows is measured from the absolute report immediately before it.
\<close>

theorem previous_sample_state:
  "static_x (initial_state b0) = 0 \<and> static_y (initial_state b0) = 0 \<and>
   (is_absolute raw \<longrightarrow>
      static_delta_x (mouse_handle e raw (initial_state b0)) = c_div (lLastX (data_mouse raw)) 25 \<and>
      static_delta_y (mouse_handle e raw (initial_state b0)) = c_div (lLastY (data_mouse raw)) 25) \<and>
   (static_x (mouse_run e raws s), static_y (mouse_run e raws s)) =
      last_absolute_sample raws (static_x s, static_y s) \<and>
   (is_absolute raw \<longrightarrow>
      static_delta_x (mouse_run e (raws @ [raw]) s) =
        c_div (lLastX (data_mouse raw) - fst (last_absolute_sample raws (static_x s, static_y s))) 25 \<and>
      static_delta_y (mouse_run e (raws @ [raw]) s) =
        c_div (lLastY (data_mouse raw) - snd (last_absolute_sample raws (static_x s, static_y s))) 25)"
proof -
  have "last_absolute_sample raws (static_x s, static_y s) =
      (static_x (mouse_run e raws s), static_y (mouse_run e raws s))"
    by (rule sample_after_mouse_run [symmetric])
  then show ?thesis
    by (simp add: mouse_run_append static_delta_x_mouse_handle static_delta_y_mouse_handle
        is_absolute_def initial_state_def)
qed

theorem previous_sample_state_witness:
  "is_absolute (mouse_report 1 0 0 1050 975) \<and>
   static_delta_x (mouse_handle example_env (mouse_report 1 0 0 1050 975) (initial_state 0)) = 42 \<and>
   static_delta_y (mouse_handle example_env (mouse_report 1 0 0 1050 975) (initial_state 0)) = 39 \<and>
   last_absolute_sample [mouse_report 1 0 0 1000 1000, mouse_report 0 0 0 3 4]
     (static_x (initial_state 0), static_y (initial_state 0)) = (1000, 1000) \<and>
   static_x (mouse_run example_env [mouse_report 1 0 0 1000 1000, mouse_report 0 0 0 3 4]
     (initial_state 0)) = 1000 \<and>
   static_y (mouse_run example_env [mouse_report 1 0 0 1000 1000, mouse_report 0 0 0 3 4]
     (initial_state 0)) = 1000 \<and>
   static_delta_x (mouse_run example_env
     ([mouse_report 1 0 0 1000 1000, mouse_report 0 0 0 3 4] @ [mouse_report 1 0 0 1050 975])
     (initial_state 0)) = 2 \<and>
   static_delta_y (mouse_run example_env
     ([mouse_report 1 0 0 1000 1000, mouse_report 0 0 0 3 4] @ [mouse_report 1 0 0 1050 975])
     (initial_state 0)) = - 1"
proof -
  have a: "is_absolute (mouse_report 1 0 0 x y)" for x y
    by (simp add: is_absolute_def mouse_report_def winuser_defs)
  have r: "\<not> is_absolute (mouse_report 0 0 0 x y)" for x y
    by (simp add: is_absolute_def mouse_report_def winuser_defs)
  have l: "last_absolute_sample [mouse_report 1 0 0 1000 1000, mouse_report 0 0 0 3 4]
     (static_x (initial_state 0), static_y (initial_state 0)) = (1000, 1000)"
    by (simp add: last_absolute_sample_def a r) (simp add: mouse_report_def)
  have c: "lLastX (data_mouse (mouse_report 1 0 0 1050 975)) = 1050"
    "lLastY (data_mouse (mouse_report 1 0 0 1050 975)) = 975"
    by (simp_all add: mouse_report_def)
  have i: "static_x (initial_state 0) = 0" "static_y (initial_state 0) = 0"
    by (simp_all add: initial_state_def)
  show ?thesis
    using a c
      previous_sample_state [of 0 "mouse_report 1 0 0 1050 975" example_env
        "[mouse_report 1 0 0 1000 1000, mouse_report 0 0 0 3 4]" "initial_state 0"]
    unfolding l by (simp add: c_div_def i)
qed

text \<open>
  The claim C3 as stated fails: the state does not start at the first sample seen, and the
  motion of the first absolute report is not zero.
\<close>

theorem first_sample_counterexample:
  "is_absolute (mouse_report 1 0 0 1000 500) \<and>
   (static_x (initial_state 0), static_y (initial_state 0)) \<noteq>
     (lLastX (data_mouse (mouse_report 1 0 0 1000 500)),
      lLastY (data_mouse (mouse_report 1 0 0 1000 500))) \<and>
   static_delta_x (mouse_handle example_env (mouse_report 1 0 0 1000 500) (initial_state 0)) = 40 \<and>
   static_delta_y (mouse_handle example_env (mouse_report 1 0 0 1000 500) (initial_state 0)) = 20 \<and>
   filter is_mouse_scale (new_calls (initial_state 0)
     (mouse_handle example_env (mouse_report 1 0 0 1000 500) (initial_state 0))) =
     [mouse_scale 40 20]"
  by (simp add: new_calls_mouse_handle static_delta_x_mouse_handle static_delta_y_mouse_handle
      is_absolute_def mouse_report_def winuser_defs initial_state_def c_div_def)

subsection \<open>The capture gate\<close>

lemma length_identity_map: "length (identity_map n) = n"
  by (simp add: identity_map_def)

lemma nth_identity_map: "i < n \<Longrightarrow> identity_map n ! i = of_nat i"
  by (simp add: identity_map_def)

lemma kb_canonical_mouse_capture:
  "kb_canonical (e\<lparr>mouse_capture := c\<rparr>) rawKB = kb_canonical e rawKB"
  by (simp add: kb_canonical_def)

lemma kb_remap_mouse_capture: "kb_remap (e\<lparr>mouse_capture := c\<rparr>) scancode = kb_remap e scancode"
  by (simp add: kb_remap_def)

lemma kb_rctrl_mouse_capture: "kb_rctrl (e\<lparr>mouse_capture := c\<rparr>) scancode = kb_rctrl e scancode"
  by (simp add: kb_rctrl_def)

lemma keyboard_handle_mouse_capture:
  "keyboard_handle (e\<lparr>mouse_capture := c\<rparr>) raw s = keyboard_handle e raw s"
  by (simp add: keyboard_handle_def kb_canonical_mouse_capture kb_remap_mouse_capture
      kb_rctrl_mouse_capture Let_def)

lemma handle_input_mouse_capture_on:
  "header_dwType raw = RIM_TYPEMOUSE \<Longrightarrow> mouse_capture e \<Longrightarrow>
   handle_input e (Some raw) s = Some (mouse_handle e raw s)"
  by (simp add: handle_input_def winuser_defs)

text \<open>
  C1, as the code has it. With the capture flag false a mouse report is not decoded at
  all: \<open>handle_input\<close> returns the state it was given, so no call is made, the
  emulated mouse keeps its button mask, and the static variables of the decoder stay too.
  A keyboard report goes to \<open>keyboard_handle\<close> whatever the capture flag is.
\<close>

theorem capture_gate:
  "(header_dwType raw = RIM_TYPEMOUSE \<and> \<not> mouse_capture e \<longrightarrow>
      handle_input e (Some raw) s = Some s) \<and>
   (header_dwType raw = RIM_TYPEKEYBOARD \<longrightarrow>
      handle_input e (Some raw) s = keyboard_handle e raw s \<and>
      handle_input (e\<lparr>mouse_capture := c\<rparr>) (Some raw) s = handle_input e (Some raw) s)"
  by (simp add: handle_input_def keyboard_handle_mouse_capture winuser_defs)

theorem capture_gate_witness:
  "header_dwType (mouse_report 1 0x0001 0 1050 975) = RIM_TYPEMOUSE \<and>
   \<not> mouse_capture (example_env\<lparr>mouse_capture := False\<rparr>) \<and>
   handle_input (example_env\<lparr>mouse_capture := False\<rparr>) (Some (mouse_report 1 0x0001 0 1050 975))
     (initial_state 0) = Some (initial_state 0) \<and>
   header_dwType (key_report 0x1E 0) = RIM_TYPEKEYBOARD \<and>
   handle_input (example_env\<lparr>mouse_capture := False\<rparr>) (Some (key_report 0x1E 0)) (initial_state 0) =
     Some ((initial_state 0)\<lparr>calls := [keyboard_input True 0x1E, checkFullscreenHotkey]\<rparr>) \<and>
   handle_input example_env (Some (key_report 0x1E 0)) (initial_state 0) =
     Some ((initial_state 0)\<lparr>calls := [keyboard_input True 0x1E, checkFullscreenHotkey]\<rparr>)"
proof -
  have k: "keyboard_handle example_env (key_report 0x1E 0) (initial_state 0) =
     Some ((initial_state 0)\<lparr>calls := [keyboard_input True 0x1E, checkFullscreenHotkey]\<rparr>)"
    by (simp add: keyboard_handle_def key_report_def kb_emit_def kb_rctrl_def kb_remap_def
        kb_canonical_def kb_prefixed_def convert_scan_code_spec_def example_env_def
        length_identity_map nth_identity_map winuser_defs do_call_def initial_state_def)
  have t: "header_dwType (mouse_report 1 0x0001 0 1050 975) = RIM_TYPEMOUSE"
    "header_dwType (key_report 0x1E 0) = RIM_TYPEKEYBOARD"
    by (simp_all add: mouse_report_def key_report_def)
  show ?thesis
    using k t
      capture_gate [of "mouse_report 1 0x0001 0 1050 975" "example_env\<lparr>mouse_capture := False\<rparr>"
        "initial_state 0" False]
      capture_gate [of "key_report 0x1E 0" example_env "initial_state 0" False]
    by simp
qed

text \<open>
  The claim C1 as stated fails where it has the report decoded: what \<open>handle_input\<close>
  returns is not what decoding the report and discarding the event would leave.
\<close>

theorem capture_gate_counterexample:
  "\<not> mouse_capture (example_env\<lparr>mouse_capture := False\<rparr>) \<and>
   handle_input (example_env\<lparr>mouse_capture := False\<rparr>) (Some (mouse_report 1 0x0001 0 1050 975))
     (initial_state 0) \<noteq>
   Some (spec_mouse_decode_discard (example_env\<lparr>mouse_capture := False\<rparr>)
     (mouse_report 1 0x0001 0 1050 975) (initial_state 0)) \<and>
   static_x (spec_mouse_decode_discard (example_env\<lparr>mouse_capture := False\<rparr>)
     (mouse_report 1 0x0001 0 1050 975) (initial_state 0)) = 1050 \<and>
   map_option static_x (handle_input (example_env\<lparr>mouse_capture := False\<rparr>)
     (Some (mouse_report 1 0x0001 0 1050 975)) (initial_state 0)) = Some 0"
proof -
  let ?e = "example_env\<lparr>mouse_capture := False\<rparr>"
  let ?r = "mouse_report 1 0x0001 0 1050 975"
  have h: "handle_input ?e (Some ?r) (initial_state 0) = Some (initial_state 0)"
    by (simp add: handle_input_def mouse_report_def winuser_defs)
  have d: "static_x (spec_mouse_decode_discard ?e ?r (initial_state 0)) = 1050"
    by (simp add: spec_mouse_decode_discard_def static_x_mouse_handle mouse_report_def
        winuser_defs)
  have z: "static_x (initial_state 0) = 0"
    by (simp add: initial_state_def)
  have "initial_state 0 \<noteq> spec_mouse_decode_discard ?e ?r (initial_state 0)"
    using d z by force
  then show ?thesis
    using h d z by simp
qed

subsection \<open>What one call of keyboard\_handle leaves behind\<close>

lemma keyboard_handle_not_E1:
  assumes "Flags (data_keyboard raw) AND RI_KEY_E1 = 0"
  shows "keyboard_handle e raw s =
     Some (do_call checkFullscreenHotkey
       (kb_emit (data_keyboard raw)
         (kb_rctrl e (kb_remap e (kb_canonical e (data_keyboard raw)))) s))"
  using assms by (simp add: keyboard_handle_def Let_def)

lemma keyboard_handle_E1:
  assumes "Flags (data_keyboard raw) AND RI_KEY_E1 \<noteq> 0"
  shows "keyboard_handle e raw s =
     (if MakeCode (data_keyboard raw) = 0x1D then
        (if 0x100 < length (scancode_map e)
         then Some (kb_emit (data_keyboard raw) (scancode_map e ! 0x100) s) else None)
      else Some s)"
  using assms by (simp add: keyboard_handle_def kb_emit_def Let_def)

lemma calls_kb_emit:
  "calls (kb_emit rawKB scancode s) =
     calls s @ (if scancode \<noteq> 0xFFFF
                then [keyboard_input (Flags rawKB AND RI_KEY_BREAK = 0) scancode] else [])"
  by (simp add: kb_emit_def do_call_def)

lemma new_calls_kb_emit:
  "new_calls s (kb_emit rawKB scancode s) =
     (if scancode \<noteq> 0xFFFF
      then [keyboard_input (Flags rawKB AND RI_KEY_BREAK = 0) scancode] else [])"
  by (rule new_calls_append) (rule calls_kb_emit)

lemma new_calls_hotkey_kb_emit:
  "new_calls s (do_call checkFullscreenHotkey (kb_emit rawKB scancode s)) =
     (if scancode \<noteq> 0xFFFF
      then [keyboard_input (Flags rawKB AND RI_KEY_BREAK = 0) scancode] else []) @
     [checkFullscreenHotkey]"
  by (rule new_calls_append) (simp add: calls_do_call calls_kb_emit)

lemma kb_prefixed_eq:
  "kb_prefixed rawKB =
     MakeCode rawKB OR (if Flags rawKB AND RI_KEY_E0 \<noteq> 0 then 0x100 else 0)"
  by (simp add: kb_prefixed_def)

lemma or_0x100_less_0x200: "((x :: 16 word) OR 0x100 < 0x200) = (x < 0x200)"
proof
  assume "x OR 0x100 < 0x200"
  then show "x < 0x200"
    using le_word_or2 [of x "0x100"] by (rule order.strict_trans1 [rotated])
next
  have a: "(y < 0x200) = (y AND mask 9 = y)" for y :: "16 word"
    using mask_eq_iff_w2p [of 9 y] by (simp add: word_size)
  have m: "(0x100 :: 16 word) AND mask 9 = 0x100"
    by (simp add: mask_numeral)
  assume "x < 0x200"
  then have "x AND mask 9 = x"
    by (simp only: a)
  then have "(x OR 0x100) AND mask 9 = x OR 0x100"
    using m by (simp only: bit.conj_disj_distrib2)
  then show "x OR 0x100 < 0x200"
    by (simp only: a)
qed

text \<open>
  Whatever \<^verbatim>\<open>convert_scan_code\<close> returns, and whatever the table and the flags
  are, the two halves of C4 cannot both hold for the make code 0x200: the canonical code
  would have to be 0x200 and below 0x200.
\<close>

lemma no_helper_meets_both_halves:
  "\<not> (kb_canonical e (data_keyboard (key_report 0x200 0)) =
        MakeCode (data_keyboard (key_report 0x200 0)) OR
          (if Flags (data_keyboard (key_report 0x200 0)) AND RI_KEY_E0 \<noteq> 0 then 0x100 else 0) \<and>
      kb_canonical e (data_keyboard (key_report 0x200 0)) < 0x200)"
  by (auto simp add: key_report_def winuser_defs)

text \<open>
  C4, for the make codes it can hold for, with the helper of line 191 as the spec has it
  on 9-bit codes and arbitrary on the others. For a report without the E1 flag whose make
  code is below 0x200, as every 8-bit make code is, the scan code taken to the remap
  lookup is the make code with bit 0x100 set under E0, and it is below 0x200.
\<close>

theorem canonical_scan_code:
  assumes "Flags (data_keyboard raw) AND RI_KEY_E1 = 0"
    and "convert_scan_code e = convert_scan_code_spec beyond"
    and "MakeCode (data_keyboard raw) < 0x200"
  shows "let kb = data_keyboard raw;
             c = MakeCode kb OR (if Flags kb AND RI_KEY_E0 \<noteq> 0 then 0x100 else 0) in
           kb_canonical e kb = c \<and>
           keyboard_handle e raw s =
             Some (do_call checkFullscreenHotkey (kb_emit kb (kb_rctrl e (kb_remap e c)) s)) \<and>
           kb_canonical e kb < 0x200"
proof -
  have l: "kb_prefixed (data_keyboard raw) < 0x200"
    using assms(3) by (simp add: kb_prefixed_def or_0x100_less_0x200)
  then have c: "kb_canonical e (data_keyboard raw) = kb_prefixed (data_keyboard raw)"
    by (simp add: kb_canonical_def assms(2) convert_scan_code_spec_def)
  show ?thesis
    using keyboard_handle_not_E1 [OF assms(1), of e s] l
    by (simp add: Let_def c flip: kb_prefixed_eq)
qed

theorem canonical_scan_code_witness:
  "Flags (data_keyboard (key_report 0x1D 2)) AND RI_KEY_E1 = 0 \<and>
   convert_scan_code example_env = convert_scan_code_spec (\<lambda>scan_code. 0xFFFF) \<and>
   MakeCode (data_keyboard (key_report 0x1D 2)) < 0x200 \<and>
   kb_canonical example_env (data_keyboard (key_report 0x1D 2)) = 0x11D \<and>
   kb_canonical example_env (data_keyboard (key_report 0x1D 2)) < 0x200 \<and>
   keyboard_handle example_env (key_report 0x1D 2) (initial_state 0) =
     Some (do_call checkFullscreenHotkey (kb_emit (data_keyboard (key_report 0x1D 2))
       (kb_rctrl example_env (kb_remap example_env 0x11D)) (initial_state 0)))"
proof -
  have h1: "Flags (data_keyboard (key_report 0x1D 2)) AND RI_KEY_E1 = 0"
    by (simp add: key_report_def winuser_defs)
  have h2: "convert_scan_code example_env = convert_scan_code_spec (\<lambda>scan_code. 0xFFFF)"
    by (simp add: example_env_def)
  have h3: "MakeCode (data_keyboard (key_report 0x1D 2)) < 0x200"
    by (simp add: key_report_def)
  have v: "MakeCode (data_keyboard (key_report 0x1D 2)) = 0x1D"
    "Flags (data_keyboard (key_report 0x1D 2)) AND RI_KEY_E0 \<noteq> 0"
    by (simp_all add: key_report_def winuser_defs)
  show ?thesis
    using h1 h2 v canonical_scan_code [OF h1 h2 h3, of "initial_state 0"]
    by (simp add: Let_def)
qed

text \<open>
  The claim C4 as stated fails for the make code 0x200, which the 16-bit field
  \<^verbatim>\<open>MakeCode\<close> can hold, and it fails there for every helper, table and flag: the
  helper's result cannot be both 0x200, the make code with no bit added, and below 0x200.
\<close>

theorem canonical_scan_code_counterexample:
  "Flags (data_keyboard (key_report 0x200 0)) AND RI_KEY_E1 = 0 \<and>
   (\<forall>e. \<not> (kb_canonical e (data_keyboard (key_report 0x200 0)) =
              MakeCode (data_keyboard (key_report 0x200 0)) OR
                (if Flags (data_keyboard (key_report 0x200 0)) AND RI_KEY_E0 \<noteq> 0
                 then 0x100 else 0) \<and>
            kb_canonical e (data_keyboard (key_report 0x200 0)) < 0x200))"
proof -
  have "Flags (data_keyboard (key_report 0x200 0)) AND RI_KEY_E1 = 0"
    by (simp add: key_report_def winuser_defs)
  then show ?thesis
    using no_helper_meets_both_halves by blast
qed

text \<open>
  C5. When the code that comes out of the remap lookup is 0x11D and the flag is set, a
  report without the E1 flag is passed on with the scan code 0x038, whatever the table
  holds; the call of \<^verbatim>\<open>keyboard_input\<close> is followed by the hotkey check.
\<close>

theorem rctrl_to_lalt:
  assumes "Flags (data_keyboard raw) AND RI_KEY_E1 = 0"
    and "rctrl_is_lalt e"
    and "kb_remap e (kb_canonical e (data_keyboard raw)) = 0x11D"
  shows "keyboard_handle e raw s =
     Some (s\<lparr>calls := calls s @
       [keyboard_input (Flags (data_keyboard raw) AND RI_KEY_BREAK = 0) 0x038,
        checkFullscreenHotkey]\<rparr>)"
  using assms(2,3)
  by (simp add: keyboard_handle_not_E1 [OF assms(1)] kb_rctrl_def kb_emit_def do_call_def)

lemma example_canonical:
  "kb_prefixed rawKB < 0x200 \<Longrightarrow> kb_canonical example_env rawKB = kb_prefixed rawKB"
  by (simp add: kb_canonical_def example_env_def convert_scan_code_spec_def)

lemma example_remap_0x1D: "kb_remap example_env 0x1D = 0x11D"
  by (simp add: kb_remap_def example_env_def length_identity_map nth_identity_map)

lemma example_remap_0x11D: "kb_remap example_env 0x11D = 0x005"
  by (simp add: kb_remap_def example_env_def length_identity_map nth_identity_map)

theorem rctrl_to_lalt_witness:
  "Flags (data_keyboard (key_report 0x1D 0)) AND RI_KEY_E1 = 0 \<and>
   rctrl_is_lalt example_env \<and>
   scancode_map example_env ! 0x1D = 0x11D \<and>
   scancode_map example_env ! 0x11D = 0x005 \<and>
   kb_remap example_env (kb_canonical example_env (data_keyboard (key_report 0x1D 0))) = 0x11D \<and>
   keyboard_handle example_env (key_report 0x1D 0) (initial_state 0) =
     Some ((initial_state 0)\<lparr>calls := [keyboard_input True 0x038, checkFullscreenHotkey]\<rparr>)"
proof -
  have h1: "Flags (data_keyboard (key_report 0x1D 0)) AND RI_KEY_E1 = 0"
    by (simp add: key_report_def winuser_defs)
  have h2: "rctrl_is_lalt example_env"
    by (simp add: example_env_def)
  have h3: "kb_remap example_env (kb_canonical example_env (data_keyboard (key_report 0x1D 0))) = 0x11D"
    by (simp add: example_canonical kb_prefixed_def key_report_def winuser_defs
        example_remap_0x1D)
  have t: "scancode_map example_env ! 0x1D = 0x11D" "scancode_map example_env ! 0x11D = 0x005"
    by (simp_all add: example_env_def length_identity_map)
  have b: "Flags (data_keyboard (key_report 0x1D 0)) AND RI_KEY_BREAK = 0"
    by (simp add: key_report_def winuser_defs)
  have c: "calls (initial_state 0) = []"
    by (simp add: initial_state_def)
  show ?thesis
    using h1 h2 h3 t rctrl_to_lalt [OF h1 h2 h3, of "initial_state 0"]
    by (simp add: b c)
qed

text \<open>
  The substitution looks at the code after the remap only: a table that remaps 0x11D
  itself to another code has that code passed on, the flag notwithstanding.
\<close>

lemma remapped_rctrl_passed_on:
  "keyboard_handle example_env (key_report 0x1D 2) (initial_state 0) =
     Some ((initial_state 0)\<lparr>calls := [keyboard_input True 0x005, checkFullscreenHotkey]\<rparr>)"
proof -
  have e1: "Flags (data_keyboard (key_report 0x1D 2)) AND RI_KEY_E1 = 0"
    by (simp add: key_report_def winuser_defs)
  have p: "kb_prefixed (data_keyboard (key_report 0x1D 2)) = 0x11D"
    by (simp add: kb_prefixed_def key_report_def winuser_defs)
  have b: "Flags (data_keyboard (key_report 0x1D 2)) AND RI_KEY_BREAK = 0"
    by (simp add: key_report_def winuser_defs)
  show ?thesis
    by (simp add: keyboard_handle_not_E1 [OF e1] example_canonical p example_remap_0x11D
        kb_rctrl_def kb_emit_def b do_call_def initial_state_def)
qed

lemma new_calls_same: "new_calls s s = []"
  by (simp add: new_calls_def)

lemma sentinel_not_passed_on:
  assumes "keyboard_handle e raw s = Some s'"
  shows "keyboard_input down 0xFFFF \<notin> set (new_calls s s')"
proof (cases "Flags (data_keyboard raw) AND RI_KEY_E1 = 0")
  case True
  then have "s' = do_call checkFullscreenHotkey
      (kb_emit (data_keyboard raw) (kb_rctrl e (kb_remap e (kb_canonical e (data_keyboard raw)))) s)"
    using assms by (simp add: keyboard_handle_not_E1)
  then show ?thesis
    by (simp add: new_calls_hotkey_kb_emit)
next
  case False
  then have "s' = s \<or> s' = kb_emit (data_keyboard raw) (scancode_map e ! 0x100) s"
    using assms by (auto simp add: keyboard_handle_E1 split: if_splits)
  then show ?thesis
    by (auto simp add: new_calls_kb_emit new_calls_same)
qed

text \<open>
  C6. A report with the E1 flag and a make code other than 0x1D leaves the state as it
  was. A report whose final scan code is the sentinel 0xFFFF makes no call of
  \<^verbatim>\<open>keyboard_input\<close>, on the E1 path and on the other one, and no report at all has
  0xFFFF passed on. A report whose device type is none of keyboard, mouse and HID leaves
  the state as it was. Each of these returns normally.
\<close>

theorem malformed_input_dropped:
  "(Flags (data_keyboard raw) AND RI_KEY_E1 \<noteq> 0 \<and> MakeCode (data_keyboard raw) \<noteq> 0x1D \<longrightarrow>
      keyboard_handle e raw s = Some s) \<and>
   (Flags (data_keyboard raw) AND RI_KEY_E1 \<noteq> 0 \<and> MakeCode (data_keyboard raw) = 0x1D \<and>
    0x100 < length (scancode_map e) \<and> scancode_map e ! 0x100 = 0xFFFF \<longrightarrow>
      keyboard_handle e raw s = Some s) \<and>
   (Flags (data_keyboard raw) AND RI_KEY_E1 = 0 \<and>
    kb_rctrl e (kb_remap e (kb_canonical e (data_keyboard raw))) = 0xFFFF \<longrightarrow>
      keyboard_handle e raw s = Some (do_call checkFullscreenHotkey s)) \<and>
   (\<forall>s' down. keyboard_handle e raw s = Some s' \<longrightarrow>
      keyboard_input down 0xFFFF \<notin> set (new_calls s s')) \<and>
   (header_dwType raw \<noteq> RIM_TYPEKEYBOARD \<and> header_dwType raw \<noteq> RIM_TYPEMOUSE \<and>
    header_dwType raw \<noteq> RIM_TYPEHID \<longrightarrow>
      handle_input e (Some raw) s = Some s)"
proof -
  have a: "keyboard_handle e raw s = Some s"
    if "Flags (data_keyboard raw) AND RI_KEY_E1 \<noteq> 0" and "MakeCode (data_keyboard raw) \<noteq> 0x1D"
    using that by (simp add: keyboard_handle_E1)
  have b: "keyboard_handle e raw s = Some s"
    if "Flags (data_keyboard raw) AND RI_KEY_E1 \<noteq> 0" and "MakeCode (data_keyboard raw) = 0x1D"
      and "0x100 < length (scancode_map e)" and "scancode_map e ! 0x100 = 0xFFFF"
    using that by (simp add: keyboard_handle_E1 kb_emit_def)
  have c: "keyboard_handle e raw s = Some (do_call checkFullscreenHotkey s)"
    if "Flags (data_keyboard raw) AND RI_KEY_E1 = 0"
      and "kb_rctrl e (kb_remap e (kb_canonical e (data_keyboard raw))) = 0xFFFF"
    using that by (simp add: keyboard_handle_not_E1 kb_emit_def)
  have d: "handle_input e (Some raw) s = Some s"
    if "header_dwType raw \<noteq> RIM_TYPEKEYBOARD" and "header_dwType raw \<noteq> RIM_TYPEMOUSE"
      and "header_dwType raw \<noteq> RIM_TYPEHID"
    using that by (simp add: handle_input_def)
  show ?thesis
    using a b c d sentinel_not_passed_on [of e raw s] by blast
qed

subsection \<open>Concrete keyboard reports\<close>

lemma example_key_0x1E:
  "keyboard_handle example_env (key_report 0x1E 0) (initial_state 0) =
     Some ((initial_state 0)\<lparr>calls := [keyboard_input True 0x1E, checkFullscreenHotkey]\<rparr>)"
  by (simp add: keyboard_handle_def key_report_def kb_emit_def kb_rctrl_def kb_remap_def
      kb_canonical_def kb_prefixed_def convert_scan_code_spec_def example_env_def
      length_identity_map nth_identity_map winuser_defs do_call_def initial_state_def)

lemma example_key_E1_1D:
  "keyboard_handle example_env (key_report 0x1D 4) (initial_state 0) =
     Some ((initial_state 0)\<lparr>calls := [keyboard_input True 0x100]\<rparr>)"
  by (simp add: keyboard_handle_def key_report_def kb_emit_def example_env_def
      length_identity_map nth_identity_map winuser_defs do_call_def initial_state_def)

lemma example_key_E1_0x45:
  "keyboard_handle example_env (key_report 0x45 4) (initial_state 0) = Some (initial_state 0)"
  by (simp add: keyboard_handle_def key_report_def kb_emit_def winuser_defs)

lemma sentinel_key_0x3A:
  "keyboard_handle sentinel_env (key_report 0x3A 0) (initial_state 0) =
     Some ((initial_state 0)\<lparr>calls := [checkFullscreenHotkey]\<rparr>)"
  by (simp add: keyboard_handle_def key_report_def kb_emit_def kb_rctrl_def kb_remap_def
      kb_canonical_def kb_prefixed_def convert_scan_code_spec_def sentinel_env_def example_env_def
      length_identity_map nth_identity_map winuser_defs do_call_def initial_state_def)

lemma sentinel_key_E1_1D:
  "keyboard_handle sentinel_env (key_report 0x1D 4) (initial_state 0) = Some (initial_state 0)"
  by (simp add: keyboard_handle_def key_report_def kb_emit_def sentinel_env_def example_env_def
      length_identity_map nth_identity_map winuser_defs)

theorem malformed_input_dropped_witness:
  "Flags (data_keyboard (key_report 0x45 4)) AND RI_KEY_E1 \<noteq> 0 \<and>
   MakeCode (data_keyboard (key_report 0x45 4)) \<noteq> 0x1D \<and>
   keyboard_handle example_env (key_report 0x45 4) (initial_state 0) = Some (initial_state 0) \<and>
   Flags (data_keyboard (key_report 0x1D 4)) AND RI_KEY_E1 \<noteq> 0 \<and>
   MakeCode (data_keyboard (key_report 0x1D 4)) = 0x1D \<and>
   0x100 < length (scancode_map sentinel_env) \<and> scancode_map sentinel_env ! 0x100 = 0xFFFF \<and>
   keyboard_handle sentinel_env (key_report 0x1D 4) (initial_state 0) = Some (initial_state 0) \<and>
   Flags (data_keyboard (key_report 0x3A 0)) AND RI_KEY_E1 = 0 \<and>
   kb_rctrl sentinel_env (kb_remap sentinel_env
     (kb_canonical sentinel_env (data_keyboard (key_report 0x3A 0)))) = 0xFFFF \<and>
   keyboard_handle sentinel_env (key_report 0x3A 0) (initial_state 0) =
     Some (do_call checkFullscreenHotkey (initial_state 0)) \<and>
   keyboard_input True 0xFFFF \<notin> set (new_calls (initial_state 0)
     (do_call checkFullscreenHotkey (initial_state 0))) \<and>
   header_dwType ((key_report 0x1E 0)\<lparr>header_dwType := 3\<rparr>) \<noteq> RIM_TYPEKEYBOARD \<and>
   header_dwType ((key_report 0x1E 0)\<lparr>header_dwType := 3\<rparr>) \<noteq> RIM_TYPEMOUSE \<and>
   header_dwType ((key_report 0x1E 0)\<lparr>header_dwType := 3\<rparr>) \<noteq> RIM_TYPEHID \<and>
   handle_input example_env (Some ((key_report 0x1E 0)\<lparr>header_dwType := 3\<rparr>)) (initial_state 0) =
     Some (initial_state 0)"
proof -
  have f: "Flags (data_keyboard (key_report 0x45 4)) AND RI_KEY_E1 \<noteq> 0"
    "MakeCode (data_keyboard (key_report 0x45 4)) \<noteq> 0x1D"
    "Flags (data_keyboard (key_report 0x1D 4)) AND RI_KEY_E1 \<noteq> 0"
    "MakeCode (data_keyboard (key_report 0x1D 4)) = 0x1D"
    "Flags (data_keyboard (key_report 0x3A 0)) AND RI_KEY_E1 = 0"
    by (simp_all add: key_report_def winuser_defs)
  have t: "0x100 < length (scancode_map sentinel_env)" "scancode_map sentinel_env ! 0x100 = 0xFFFF"
    by (simp_all add: sentinel_env_def length_identity_map)
  have k: "kb_rctrl sentinel_env (kb_remap sentinel_env
     (kb_canonical sentinel_env (data_keyboard (key_report 0x3A 0)))) = 0xFFFF"
    by (simp add: kb_rctrl_def kb_remap_def kb_canonical_def kb_prefixed_def key_report_def
        convert_scan_code_spec_def sentinel_env_def example_env_def length_identity_map
        nth_identity_map winuser_defs)
  have d: "header_dwType ((key_report 0x1E 0)\<lparr>header_dwType := 3\<rparr>) \<noteq> RIM_TYPEKEYBOARD"
    "header_dwType ((key_report 0x1E 0)\<lparr>header_dwType := 3\<rparr>) \<noteq> RIM_TYPEMOUSE"
    "header_dwType ((key_report 0x1E 0)\<lparr>header_dwType := 3\<rparr>) \<noteq> RIM_TYPEHID"
    by (simp_all add: winuser_defs)
  have m1: "keyboard_handle example_env (key_report 0x45 4) (initial_state 0) = Some (initial_state 0)"
    using malformed_input_dropped [of "key_report 0x45 4" example_env "initial_state 0"] f
    by simp
  have m2: "keyboard_handle sentinel_env (key_report 0x1D 4) (initial_state 0) = Some (initial_state 0)"
    using malformed_input_dropped [of "key_report 0x1D 4" sentinel_env "initial_state 0"] f t
    by simp
  have m3: "keyboard_handle sentinel_env (key_report 0x3A 0) (initial_state 0) =
      Some (do_call checkFullscreenHotkey (initial_state 0))"
    using malformed_input_dropped [of "key_report 0x3A 0" sentinel_env "initial_state 0"] f k
    by simp
  have m4: "keyboard_input True 0xFFFF \<notin> set (new_calls (initial_state 0)
      (do_call checkFullscreenHotkey (initial_state 0)))"
    using malformed_input_dropped [of "key_report 0x3A 0" sentinel_env "initial_state 0"] m3
    by simp
  have m5: "handle_input example_env (Some ((key_report 0x1E 0)\<lparr>header_dwType := 3\<rparr>))
      (initial_state 0) = Some (initial_state 0)"
    using malformed_input_dropped [of "(key_report 0x1E 0)\<lparr>header_dwType := 3\<rparr>" example_env
        "initial_state 0"] d
    by simp
  show ?thesis
    using f t k d m1 m2 m3 m4 m5 by simp
qed

text \<open>
  C9. A report without the E1 flag makes the hotkey check once, as its last call, after
  the call of \<^verbatim>\<open>keyboard_input\<close> if there is one and also if there is none. A
  report with the E1 flag never makes it. The E1 path has no result only for the make code
  0x1D with a table too short to have the slot 0x100.
\<close>

theorem fullscreen_hotkey_once:
  "(Flags (data_keyboard raw) AND RI_KEY_E1 = 0 \<longrightarrow>
      (case keyboard_handle e raw s of
         None \<Rightarrow> False
       | Some s' \<Rightarrow>
           new_calls s s' =
             (let scancode = kb_rctrl e (kb_remap e (kb_canonical e (data_keyboard raw))) in
              if scancode \<noteq> 0xFFFF
              then [keyboard_input (Flags (data_keyboard raw) AND RI_KEY_BREAK = 0) scancode]
              else []) @ [checkFullscreenHotkey] \<and>
           filter is_checkFullscreenHotkey (new_calls s s') = [checkFullscreenHotkey])) \<and>
   (Flags (data_keyboard raw) AND RI_KEY_E1 \<noteq> 0 \<longrightarrow>
      (case keyboard_handle e raw s of
         None \<Rightarrow> MakeCode (data_keyboard raw) = 0x1D \<and> length (scancode_map e) \<le> 0x100
       | Some s' \<Rightarrow> filter is_checkFullscreenHotkey (new_calls s s') = []))"
proof -
  have a: "case keyboard_handle e raw s of
         None \<Rightarrow> False
       | Some s' \<Rightarrow>
           new_calls s s' =
             (let scancode = kb_rctrl e (kb_remap e (kb_canonical e (data_keyboard raw))) in
              if scancode \<noteq> 0xFFFF
              then [keyboard_input (Flags (data_keyboard raw) AND RI_KEY_BREAK = 0) scancode]
              else []) @ [checkFullscreenHotkey] \<and>
           filter is_checkFullscreenHotkey (new_calls s s') = [checkFullscreenHotkey]"
    if "Flags (data_keyboard raw) AND RI_KEY_E1 = 0"
    by (simp add: keyboard_handle_not_E1 [OF that] new_calls_hotkey_kb_emit Let_def)
  have b: "case keyboard_handle e raw s of
         None \<Rightarrow> MakeCode (data_keyboard raw) = 0x1D \<and> length (scancode_map e) \<le> 0x100
       | Some s' \<Rightarrow> filter is_checkFullscreenHotkey (new_calls s s') = []"
    if "Flags (data_keyboard raw) AND RI_KEY_E1 \<noteq> 0"
    by (simp add: keyboard_handle_E1 [OF that] new_calls_kb_emit new_calls_same)
  show ?thesis
    using a b by blast
qed

theorem fullscreen_hotkey_once_witness:
  "Flags (data_keyboard (key_report 0x1E 0)) AND RI_KEY_E1 = 0 \<and>
   keyboard_handle example_env (key_report 0x1E 0) (initial_state 0) =
     Some ((initial_state 0)\<lparr>calls := [keyboard_input True 0x1E, checkFullscreenHotkey]\<rparr>) \<and>
   filter is_checkFullscreenHotkey (new_calls (initial_state 0)
     ((initial_state 0)\<lparr>calls := [keyboard_input True 0x1E, checkFullscreenHotkey]\<rparr>)) =
     [checkFullscreenHotkey] \<and>
   Flags (data_keyboard (key_report 0x3A 0)) AND RI_KEY_E1 = 0 \<and>
   keyboard_handle sentinel_env (key_report 0x3A 0) (initial_state 0) =
     Some ((initial_state 0)\<lparr>calls := [checkFullscreenHotkey]\<rparr>) \<and>
   filter is_checkFullscreenHotkey (new_calls (initial_state 0)
     ((initial_state 0)\<lparr>calls := [checkFullscreenHotkey]\<rparr>)) = [checkFullscreenHotkey] \<and>
   Flags (data_keyboard (key_report 0x1D 4)) AND RI_KEY_E1 \<noteq> 0 \<and>
   keyboard_handle example_env (key_report 0x1D 4) (initial_state 0) =
     Some ((initial_state 0)\<lparr>calls := [keyboard_input True 0x100]\<rparr>) \<and>
   filter is_checkFullscreenHotkey (new_calls (initial_state 0)
     ((initial_state 0)\<lparr>calls := [keyboard_input True 0x100]\<rparr>)) = []"
proof -
  have f: "Flags (data_keyboard (key_report 0x1E 0)) AND RI_KEY_E1 = 0"
    "Flags (data_keyboard (key_report 0x3A 0)) AND RI_KEY_E1 = 0"
    "Flags (data_keyboard (key_report 0x1D 4)) AND RI_KEY_E1 \<noteq> 0"
    by (simp_all add: key_report_def winuser_defs)
  have w1: "filter is_checkFullscreenHotkey (new_calls (initial_state 0)
      ((initial_state 0)\<lparr>calls := [keyboard_input True 0x1E, checkFullscreenHotkey]\<rparr>)) =
      [checkFullscreenHotkey]"
    using f(1)
      fullscreen_hotkey_once
        [where raw = "key_report 0x1E 0" and e = example_env and s = "initial_state 0"]
    unfolding example_key_0x1E option.case by blast
  have w2: "filter is_checkFullscreenHotkey (new_calls (initial_state 0)
      ((initial_state 0)\<lparr>calls := [checkFullscreenHotkey]\<rparr>)) = [checkFullscreenHotkey]"
    using f(2)
      fullscreen_hotkey_once
        [where raw = "key_report 0x3A 0" and e = sentinel_env and s = "initial_state 0"]
    unfolding sentinel_key_0x3A option.case by blast
  have w3: "filter is_checkFullscreenHotkey (new_calls (initial_state 0)
      ((initial_state 0)\<lparr>calls := [keyboard_input True 0x100]\<rparr>)) = []"
    using f(3)
      fullscreen_hotkey_once
        [where raw = "key_report 0x1D 4" and e = example_env and s = "initial_state 0"]
    unfolding example_key_E1_1D option.case by blast
  show ?thesis
    using f w1 w2 w3 example_key_0x1E sentinel_key_0x3A example_key_E1_1D
    by (intro conjI)
qed

end
